theory Spec2Isabelle
  imports Complex_Main "HOL-Library.Char_ord" "HOL-Library.List_Lexorder"
begin

section \<open>Calendar dates as the program sees them\<close>

text \<open>
  The program (\<^verbatim>\<open>app.py\<close>) stores dates as text (\<^verbatim>\<open>YYYY-MM-DD\<close>) and turns them into
  \<^verbatim>\<open>datetime\<close> values with \<^verbatim>\<open>datetime.strptime(s, '%Y-%m-%d')\<close>. Of a
  \<^verbatim>\<open>datetime\<close> the program only ever reads \<^verbatim>\<open>year\<close>, \<^verbatim>\<open>month\<close> and \<^verbatim>\<open>day\<close>, so a
  date is a record of these three Python integers. The values that the \<^verbatim>\<open>datetime\<close>
  type can hold are the ones satisfying \<open>valid_date\<close> (years 1 to 9999).
\<close>

record date =
  year :: int
  month :: int
  day :: int

definition is_leap :: "int \<Rightarrow> bool" where
  "is_leap y = (y mod 4 = 0 \<and> (y mod 100 \<noteq> 0 \<or> y mod 400 = 0))"

definition days_in_month :: "int \<Rightarrow> int \<Rightarrow> int" where
  "days_in_month y m =
     (if m = 2 then (if is_leap y then 29 else 28)
      else if m = 4 \<or> m = 6 \<or> m = 9 \<or> m = 11 then 30 else 31)"

definition valid_date :: "date \<Rightarrow> bool" where
  "valid_date d =
     (1 \<le> year d \<and> year d \<le> 9999 \<and> 1 \<le> month d \<and> month d \<le> 12 \<and>
      1 \<le> day d \<and> day d \<le> days_in_month (year d) (month d))"

text \<open>The exceptions that the modelled code can raise: those of Python, and
  \<^verbatim>\<open>IntegrityError\<close> of the database layer.\<close>

datatype exn = ValueError | OverflowError | TypeError | IntegrityError

text \<open>
  \<^verbatim>\<open>dt + timedelta(days=1)\<close>: the next calendar day; past 9999-12-31 Python raises
  \<^verbatim>\<open>OverflowError\<close>.
\<close>

definition plus_one_day :: "date \<Rightarrow> exn + date" where
  "plus_one_day d =
     (if day d < days_in_month (year d) (month d) then Inr (d\<lparr>day := day d + 1\<rparr>)
      else if month d < 12 then Inr \<lparr>year = year d, month = month d + 1, day = 1\<rparr>
      else if year d < 9999 then Inr \<lparr>year = year d + 1, month = 1, day = 1\<rparr>
      else Inl OverflowError)"

text \<open>
  \<^verbatim>\<open>dt.replace(year=y, month=m, day=n)\<close>: the fields are checked again, and a value
  outside the range of the type raises \<^verbatim>\<open>ValueError\<close>.
\<close>

definition replace :: "date \<Rightarrow> int \<Rightarrow> int \<Rightarrow> int \<Rightarrow> exn + date" where
  "replace d y m n =
     (let r = d\<lparr>year := y, month := m, day := n\<rparr>
      in if valid_date r then Inr r else Inl ValueError)"

subsection \<open>Parsing: \<^verbatim>\<open>datetime.strptime(s, '%Y-%m-%d')\<close>\<close>

text \<open>
  CPython compiles the format into the regular expression
  \<^verbatim>\<open>(?P<Y>\d\d\d\d)-(?P<m>1[0-2]|0[1-9]|[1-9])-(?P<d>3[0-1]|[1-2]\d|0[1-9]|[1-9]| [1-9])\<close>,
  matches it at the start of the string, raises \<^verbatim>\<open>ValueError\<close> when there is no match
  or when text remains after the match, and then builds the date (which raises
  \<^verbatim>\<open>ValueError\<close> for year 0 or a day the month does not have). Each matcher below returns
  the alternatives of its group in the order the regular expression tries them, each
  with the text that follows. Strings are sequences of 8-bit characters, among which
  the decimal digits are \<^verbatim>\<open>0\<close> to \<^verbatim>\<open>9\<close>.
\<close>

definition digit :: "char \<Rightarrow> int option" where
  "digit c = map_of
     [(CHR ''0'', 0), (CHR ''1'', 1), (CHR ''2'', 2), (CHR ''3'', 3), (CHR ''4'', 4),
      (CHR ''5'', 5), (CHR ''6'', 6), (CHR ''7'', 7), (CHR ''8'', 8), (CHR ''9'', 9)] c"

definition digit_in :: "int \<Rightarrow> int \<Rightarrow> char \<Rightarrow> int option" where
  "digit_in lo hi c =
     (case digit c of None \<Rightarrow> None
      | Some v \<Rightarrow> if lo \<le> v \<and> v \<le> hi then Some v else None)"

definition one_digit :: "int \<Rightarrow> int \<Rightarrow> string \<Rightarrow> (int \<times> string) list" where
  "one_digit lo hi s =
     (case s of [] \<Rightarrow> []
      | c # r \<Rightarrow> (case digit_in lo hi c of None \<Rightarrow> [] | Some v \<Rightarrow> [(v, r)]))"

definition two_digits :: "int \<Rightarrow> int \<Rightarrow> int \<Rightarrow> int \<Rightarrow> string \<Rightarrow> (int \<times> string) list" where
  "two_digits lo1 hi1 lo2 hi2 s =
     (case s of [] \<Rightarrow> []
      | c # r \<Rightarrow> (case digit_in lo1 hi1 c of None \<Rightarrow> []
                  | Some v \<Rightarrow> map (\<lambda>(w, r'). (10 * v + w, r')) (one_digit lo2 hi2 r)))"

definition match_Y :: "string \<Rightarrow> (int \<times> string) list" where
  "match_Y s =
     concat (map (\<lambda>(hi, r). map (\<lambda>(lo, r'). (100 * hi + lo, r')) (two_digits 0 9 0 9 r))
                 (two_digits 0 9 0 9 s))"

definition match_m :: "string \<Rightarrow> (int \<times> string) list" where
  "match_m s = two_digits 1 1 0 2 s @ two_digits 0 0 1 9 s @ one_digit 1 9 s"

definition match_d :: "string \<Rightarrow> (int \<times> string) list" where
  "match_d s =
     two_digits 3 3 0 1 s @ two_digits 1 2 0 9 s @ two_digits 0 0 1 9 s @ one_digit 1 9 s @
     (case s of [] \<Rightarrow> [] | c # r \<Rightarrow> if c = CHR '' '' then one_digit 1 9 r else [])"

definition literal :: "char \<Rightarrow> string \<Rightarrow> string list" where
  "literal c s = (case s of [] \<Rightarrow> [] | x # r \<Rightarrow> if x = c then [r] else [])"

text \<open>All matches of the whole expression, in backtracking order: the first is the one
  the regular-expression engine reports.\<close>

definition regex_matches :: "string \<Rightarrow> (date \<times> string) list" where
  "regex_matches s =
     concat (map (\<lambda>(y, r1).
       concat (map (\<lambda>r2.
         concat (map (\<lambda>(m, r3).
           concat (map (\<lambda>r4.
             map (\<lambda>(n, r5). (\<lparr>year = y, month = m, day = n\<rparr>, r5)) (match_d r4))
             (literal CHR ''-'' r3)))
           (match_m r2)))
         (literal CHR ''-'' r1)))
       (match_Y s))"

definition strptime :: "string \<Rightarrow> date option" where
  "strptime s =
     (case regex_matches s of
        [] \<Rightarrow> None
      | (d, rest) # _ \<Rightarrow> if rest \<noteq> [] then None else if valid_date d then Some d else None)"

section \<open>The pending-fee calculator\<close>

text \<open>
  \<^verbatim>\<open>calculate_pending_fees(student_monthly_fee, admission_date_str, latest_paid_till_str)\<close>
  reads the clock with \<^verbatim>\<open>datetime.now()\<close>; the model takes that value as its first
  argument \<open>today\<close>. The fee is a \<^verbatim>\<open>Float\<close> column; the model computes with it as an
  exact number. The branches of the source are kept as they are written, each in a
  definition of its own, so that the two day-of-month adjustments can be named.
\<close>

text \<open>Python truthiness of a value that is \<^verbatim>\<open>None\<close> or a string.\<close>

definition truthy :: "string option \<Rightarrow> bool" where
  "truthy v = (case v of None \<Rightarrow> False | Some s \<Rightarrow> s \<noteq> [])"

text \<open>The guard of the adjustment in the no-payment branch:
  \<^verbatim>\<open>today.day < 1 and months_diff > 0\<close>.\<close>

definition no_payment_adjustment :: "date \<Rightarrow> int \<Rightarrow> bool" where
  "no_payment_adjustment today months_diff = (day today < 1 \<and> months_diff > 0)"

definition pending_no_payment :: "date \<Rightarrow> date \<Rightarrow> int" where
  "pending_no_payment today admission_dt =
     (let months_diff =
            (year today - year admission_dt) * 12 + (month today - month admission_dt)
      in if months_diff = 0 \<and> year admission_dt = year today
              \<and> month admission_dt = month today
         then 0
         else (let pending_months = months_diff + 1
               in if no_payment_adjustment today months_diff
                  then pending_months - 1 else pending_months))"

text \<open>\<^verbatim>\<open>start_pending_dt\<close>: one day after \<^verbatim>\<open>paid_till_dt\<close>, moved to the first day of
  the following month when that is not already a first of the month.\<close>

definition start_pending :: "date \<Rightarrow> exn + date" where
  "start_pending paid_till_dt =
     (case plus_one_day paid_till_dt of
        Inl e \<Rightarrow> Inl e
      | Inr start_pending_dt \<Rightarrow>
          if day start_pending_dt \<noteq> 1 then
            (if month paid_till_dt = 12
             then replace paid_till_dt (year paid_till_dt + 1) 1 1
             else replace paid_till_dt (year paid_till_dt) (month paid_till_dt + 1) 1)
          else Inr start_pending_dt)"

text \<open>The guard of the adjustment in the payment branch:
  \<^verbatim>\<open>today.day == 1 and paid_till_dt.month == (today.month - 1) % 12 and
  paid_till_dt.year == (today.year if today.month != 1 else today.year - 1)\<close>.\<close>

definition day1_adjustment :: "date \<Rightarrow> date \<Rightarrow> bool" where
  "day1_adjustment today paid_till_dt =
     (day today = 1 \<and> month paid_till_dt = (month today - 1) mod 12 \<and>
      year paid_till_dt = (if month today \<noteq> 1 then year today else year today - 1))"

definition pending_from_start :: "date \<Rightarrow> date \<Rightarrow> date \<Rightarrow> int" where
  "pending_from_start today paid_till_dt start_pending_dt =
     (if year start_pending_dt > year today \<or>
         (year start_pending_dt = year today \<and> month start_pending_dt > month today)
      then 0
      else (let pending_months =
                  (year today - year start_pending_dt) * 12
                    + (month today - month start_pending_dt) + 1
            in if day1_adjustment today paid_till_dt
               then pending_months - 1 else pending_months))"

definition pending_months_of :: "date \<Rightarrow> string \<Rightarrow> string option \<Rightarrow> exn + int" where
  "pending_months_of today admission_date_str latest_paid_till_str =
     (if \<not> truthy latest_paid_till_str then
        (case strptime admission_date_str of
           None \<Rightarrow> Inl ValueError
         | Some admission_dt \<Rightarrow> Inr (pending_no_payment today admission_dt))
      else
        (case strptime (case latest_paid_till_str of Some s \<Rightarrow> s | None \<Rightarrow> []) of
           None \<Rightarrow> Inl ValueError
         | Some paid_till_dt \<Rightarrow>
             (case start_pending paid_till_dt of
                Inl e \<Rightarrow> Inl e
              | Inr start_pending_dt \<Rightarrow>
                  Inr (pending_from_start today paid_till_dt start_pending_dt))))"

definition calculate_pending_fees ::
  "date \<Rightarrow> real \<Rightarrow> string \<Rightarrow> string option \<Rightarrow> exn + (int \<times> real)" where
  "calculate_pending_fees today student_monthly_fee admission_date_str latest_paid_till_str =
     (case pending_months_of today admission_date_str latest_paid_till_str of
        Inl e \<Rightarrow> Inl e
      | Inr pending_months \<Rightarrow>
          Inr (pending_months,
               if pending_months > 0
               then student_monthly_fee * of_int pending_months else 0))"

text \<open>The reading of the specification for \<^verbatim>\<open>start_pending\<close>: the first day of the
  calendar month after the month of the paid-till date, whatever its day of month.\<close>

definition first_of_next_month :: "date \<Rightarrow> date" where
  "first_of_next_month d =
     (if month d = 12 then \<lparr>year = year d + 1, month = 1, day = 1\<rparr>
      else \<lparr>year = year d, month = month d + 1, day = 1\<rparr>)"

section \<open>The ledger: students, payments and the committed store\<close>

text \<open>
  The tables \<^verbatim>\<open>Student\<close> and \<^verbatim>\<open>Payment\<close>. Columns keep their names behind a prefix
  (\<open>s_\<close>, \<open>p_\<close>), since both tables have an \<^verbatim>\<open>id\<close>. A database is the committed
  content of the two tables, rows in insertion order. Nullable text columns are
  \<open>string option\<close>.
\<close>

record student =
  s_id :: int
  s_name :: string
  s_address :: "string option"
  s_phone :: "string option"
  s_admission_date :: string
  s_admission_cancel_date :: "string option"
  s_monthly_fee :: real

record payment =
  p_id :: int
  p_student_id :: int
  p_paid_till :: string

record database =
  students :: "student list"
  payments :: "payment list"

text \<open>An integer primary key that is not given is assigned by the store: one more than
  the largest key in the table, 1 in an empty table.\<close>

definition next_id :: "int list \<Rightarrow> int" where
  "next_id ids = fold max ids 0 + 1"

text \<open>\<^verbatim>\<open>db.session.add(row); db.session.commit()\<close> for a new row of each table: the
  row with its assigned key, and the committed database that results.\<close>

definition insert_student ::
  "database \<Rightarrow> string \<Rightarrow> string option \<Rightarrow> string option \<Rightarrow> string \<Rightarrow> real
     \<Rightarrow> student \<times> database" where
  "insert_student db name address phone admission_date monthly_fee =
     (let new_student = \<lparr>s_id = next_id (map s_id (students db)), s_name = name,
             s_address = address, s_phone = phone, s_admission_date = admission_date,
             s_admission_cancel_date = None, s_monthly_fee = monthly_fee\<rparr>
      in (new_student, db\<lparr>students := students db @ [new_student]\<rparr>))"

definition insert_payment :: "database \<Rightarrow> int \<Rightarrow> string \<Rightarrow> payment \<times> database" where
  "insert_payment db student_id paid_till =
     (let new_payment = \<lparr>p_id = next_id (map p_id (payments db)),
             p_student_id = student_id, p_paid_till = paid_till\<rparr>
      in (new_payment, db\<lparr>payments := payments db @ [new_payment]\<rparr>))"

text \<open>The integers that the store takes as a value of an integer column: 64 bits,
  signed.\<close>

definition sqlite_integer :: "int \<Rightarrow> bool" where
  "sqlite_integer n = (- (2 ^ 63) \<le> n \<and> n < 2 ^ 63)"

text \<open>\<^verbatim>\<open>Student.query.get(student_id)\<close>: the row with that key, if there is one. The
  id comes from the URL and is an unbounded Python integer; one that is not a 64-bit
  integer cannot be bound to the query, and the call raises \<^verbatim>\<open>OverflowError\<close>.\<close>

definition find_student :: "database \<Rightarrow> int \<Rightarrow> exn + student option" where
  "find_student db student_id =
     (if \<not> sqlite_integer student_id then Inl OverflowError
      else Inr (find (\<lambda>s. s_id s = student_id) (students db)))"

text \<open>
  The relationship \<^verbatim>\<open>Student.payments\<close>: the payment rows whose \<^verbatim>\<open>student_id\<close> is the
  student's key, \<^verbatim>\<open>order_by='desc(Payment.paid_till)'\<close>. The column is text, so the
  order is the order of strings. Rows with equal \<^verbatim>\<open>paid_till\<close> are kept in table
  order here.
\<close>

definition order_by_paid_till_desc :: "payment list \<Rightarrow> payment list" where
  "order_by_paid_till_desc ps = rev (sort_key p_paid_till (rev ps))"

definition student_payments :: "database \<Rightarrow> int \<Rightarrow> payment list" where
  "student_payments db student_id =
     order_by_paid_till_desc (filter (\<lambda>p. p_student_id p = student_id) (payments db))"

text \<open>\<^verbatim>\<open>db.session.delete(student); db.session.commit()\<close> with
  \<^verbatim>\<open>cascade="all, delete-orphan"\<close>: the session loads \<^verbatim>\<open>student.payments\<close>, deletes
  each of those rows by its key, and deletes the student row by its key.\<close>

definition delete_cascade :: "database \<Rightarrow> student \<Rightarrow> database" where
  "delete_cascade db student =
     (let children = map p_id (student_payments db (s_id student))
      in \<lparr>students = filter (\<lambda>s. s_id s \<noteq> s_id student) (students db),
          payments = filter (\<lambda>p. p_id p \<notin> set children) (payments db)\<rparr>)"

section \<open>The read path\<close>

text \<open>The dictionary returned by \<^verbatim>\<open>Student.to_dict\<close>, keys behind the prefix \<open>v_\<close>.\<close>

record student_view =
  v_id :: int
  v_name :: string
  v_address :: "string option"
  v_phone :: "string option"
  v_admission_date :: string
  v_admission_cancel_date :: "string option"
  v_monthly_fee :: real
  v_paid_till :: "string option"
  v_pending_months :: int
  v_pending_amount :: real

definition latest_paid_till :: "database \<Rightarrow> student \<Rightarrow> string option" where
  "latest_paid_till db self =
     (case student_payments db (s_id self) of
        [] \<Rightarrow> None
      | p # _ \<Rightarrow> Some (p_paid_till p))"

definition to_dict :: "date \<Rightarrow> database \<Rightarrow> student \<Rightarrow> exn + student_view" where
  "to_dict today db self =
     (case calculate_pending_fees today (s_monthly_fee self) (s_admission_date self)
             (latest_paid_till db self) of
        Inl e \<Rightarrow> Inl e
      | Inr (pending_months, pending_amount) \<Rightarrow>
          Inr \<lparr>v_id = s_id self, v_name = s_name self, v_address = s_address self,
               v_phone = s_phone self, v_admission_date = s_admission_date self,
               v_admission_cancel_date = s_admission_cancel_date self,
               v_monthly_fee = s_monthly_fee self,
               v_paid_till = latest_paid_till db self,
               v_pending_months = pending_months,
               v_pending_amount = pending_amount\<rparr>)"

text \<open>\<^verbatim>\<open>get_pending_students\<close>: the loop over \<^verbatim>\<open>Student.query.all()\<close> that appends to
  \<^verbatim>\<open>pending_students_list\<close>. An exception raised by \<^verbatim>\<open>to_dict\<close> ends the request.\<close>

fun pending_loop ::
  "date \<Rightarrow> database \<Rightarrow> student list \<Rightarrow> student_view list \<Rightarrow> exn + student_view list" where
  "pending_loop today db [] pending_students_list = Inr pending_students_list"
| "pending_loop today db (student # rest) pending_students_list =
     (case to_dict today db student of
        Inl e \<Rightarrow> Inl e
      | Inr s_dict \<Rightarrow>
          if v_pending_amount s_dict \<noteq> 0 \<and> v_pending_amount s_dict > 0
          then pending_loop today db rest (pending_students_list @ [s_dict])
          else pending_loop today db rest pending_students_list)"

definition get_pending_students :: "date \<Rightarrow> database \<Rightarrow> exn + student_view list" where
  "get_pending_students today db = pending_loop today db (students db) []"

text \<open>
  The reading of the specification for \<^verbatim>\<open>list_pending\<close>: the views of all students, in
  listing order, filtered to a pending amount above 0. A view that cannot be computed
  leaves the whole sequence without a value.
\<close>

fun get_student_views :: "date \<Rightarrow> database \<Rightarrow> student list \<Rightarrow> exn + student_view list" where
  "get_student_views today db [] = Inr []"
| "get_student_views today db (s # rest) =
     (case to_dict today db s of
        Inl e \<Rightarrow> Inl e
      | Inr v \<Rightarrow> (case get_student_views today db rest of
                    Inl e \<Rightarrow> Inl e
                  | Inr vs \<Rightarrow> Inr (v # vs)))"

definition list_pending :: "date \<Rightarrow> database \<Rightarrow> student list \<Rightarrow> exn + student_view list" where
  "list_pending today db all_students =
     (case get_student_views today db all_students of
        Inl e \<Rightarrow> Inl e
      | Inr vs \<Rightarrow> Inr (filter (\<lambda>v. v_pending_amount v > 0) vs))"

section \<open>The write path\<close>

text \<open>
  What a request handler answers: a failure (the error responses of the source, and an
  exception that no handler catches) or a value. Beside the answer, each handler yields
  the committed databases it produced, one per \<^verbatim>\<open>db.session.commit()\<close>, in order: the
  empty list when nothing was committed.
\<close>

datatype failure =
    MissingFields
  | InvalidFormat
  | PaidTillRequired
  | IncorrectPassword
  | StudentNotFound
  | Unhandled exn

type_synonym 'a outcome = "(failure + 'a) \<times> database list"

definition final_state :: "database \<Rightarrow> database list \<Rightarrow> database" where
  "final_state db commits = last (db # commits)"

text \<open>
  The JSON body of \<^verbatim>\<open>POST /students\<close>: each text field is a string or absent
  (\<^verbatim>\<open>data.get\<close> gives \<^verbatim>\<open>None\<close>). The field \<^verbatim>\<open>monthly_fee\<close> is
  \<^item> a number that \<^verbatim>\<open>float\<close> turns into a finite value (\<open>FeeNumber\<close>),
  \<^item> the literal \<^verbatim>\<open>NaN\<close>, which the JSON reader accepts (\<open>FeeNaN\<close>),
  \<^item> an integer beyond the range of a double, on which \<^verbatim>\<open>float\<close> raises
    \<^verbatim>\<open>OverflowError\<close> (\<open>FeeHuge\<close>),
  \<^item> a string (\<open>FeeText\<close>), or
  \<^item> an array or an object, on which \<^verbatim>\<open>float\<close> raises \<^verbatim>\<open>TypeError\<close> (\<open>FeeOther\<close>).

  What \<^verbatim>\<open>float\<close> makes of a string is left to a parameter \<open>float_of_text\<close>: a finite
  value, NaN, or \<open>None\<close> where it raises \<^verbatim>\<open>ValueError\<close>. The infinities, which
  \<^verbatim>\<open>float\<close> also returns (for \<^verbatim>\<open>'inf'\<close> or \<^verbatim>\<open>1e999\<close>), are not modelled: the
  \<^verbatim>\<open>Float\<close> column holds finite numbers here.
\<close>

datatype fee_field = FeeNumber real | FeeNaN | FeeHuge | FeeText string | FeeOther

datatype float_value = Finite real | NaN

record add_student_request =
  req_name :: "string option"
  req_address :: "string option"
  req_phone :: "string option"
  req_admission_date :: "string option"
  req_initial_paid_till :: "string option"
  req_monthly_fee :: "fee_field option"

definition py_float ::
  "(string \<Rightarrow> float_value option) \<Rightarrow> fee_field \<Rightarrow> exn + float_value" where
  "py_float float_of_text v =
     (case v of
        FeeNumber x \<Rightarrow> Inr (Finite x)
      | FeeNaN \<Rightarrow> Inr NaN
      | FeeHuge \<Rightarrow> Inl OverflowError
      | FeeText s \<Rightarrow> (case float_of_text s of None \<Rightarrow> Inl ValueError | Some x \<Rightarrow> Inr x)
      | FeeOther \<Rightarrow> Inl TypeError)"

text \<open>The check \<^verbatim>\<open>all([name, admission_date, initial_paid_till, monthly_fee is not None])\<close>.\<close>

definition required_fields :: "add_student_request \<Rightarrow> bool" where
  "required_fields data =
     (truthy (req_name data) \<and> truthy (req_admission_date data) \<and>
      truthy (req_initial_paid_till data) \<and> req_monthly_fee data \<noteq> None)"

text \<open>
  \<^verbatim>\<open>add_student\<close>. The \<^verbatim>\<open>try\<close> block converts the fee and parses the two dates, and
  catches \<^verbatim>\<open>ValueError\<close> only: another exception of \<^verbatim>\<open>float\<close> leaves the handler.
  A fee that is NaN passes the block; the store binds it as \<^verbatim>\<open>NULL\<close>, the column is
  \<^verbatim>\<open>nullable=False\<close>, and the first \<^verbatim>\<open>db.session.commit()\<close> raises
  \<^verbatim>\<open>IntegrityError\<close> with nothing committed.
\<close>

definition add_student ::
  "(string \<Rightarrow> float_value option) \<Rightarrow> date \<Rightarrow> database \<Rightarrow> add_student_request
     \<Rightarrow> student_view outcome" where
  "add_student float_of_text today db data =
     (if \<not> required_fields data then (Inl MissingFields, [])
      else
        (case (req_name data, req_admission_date data, req_initial_paid_till data,
               req_monthly_fee data) of
           (Some name, Some admission_date, Some initial_paid_till, Some fee) \<Rightarrow>
             (case py_float float_of_text fee of
                Inl e \<Rightarrow>
                  (if e = ValueError then (Inl InvalidFormat, [])
                   else (Inl (Unhandled e), []))
              | Inr monthly_fee \<Rightarrow>
                 (case strptime admission_date of
                    None \<Rightarrow> (Inl InvalidFormat, [])
                  | Some _ \<Rightarrow>
                     (case strptime initial_paid_till of
                        None \<Rightarrow> (Inl InvalidFormat, [])
                      | Some _ \<Rightarrow>
                         (case monthly_fee of
                            NaN \<Rightarrow> (Inl (Unhandled IntegrityError), [])
                          | Finite fee_value \<Rightarrow>
                             (let (new_student, db1) =
                                    insert_student db name (req_address data)
                                      (req_phone data) admission_date fee_value;
                                  (initial_payment_record, db2) =
                                    insert_payment db1 (s_id new_student) initial_paid_till
                              in (case to_dict today db2 new_student of
                                    Inl e \<Rightarrow> Inl (Unhandled e)
                                  | Inr v \<Rightarrow> Inr v,
                                  [db1, db2]))))))
         | _ \<Rightarrow> (Inl MissingFields, [])))"

text \<open>\<^verbatim>\<open>DELETE /students/<id>\<close>; \<open>password_confirmation\<close> is \<^verbatim>\<open>data.get('password')\<close>
  and \<open>ADMIN_PASSWORD\<close> the configured password.\<close>

definition delete_student ::
  "string \<Rightarrow> database \<Rightarrow> int \<Rightarrow> string option \<Rightarrow> unit outcome" where
  "delete_student ADMIN_PASSWORD db student_id password_confirmation =
     (if password_confirmation \<noteq> Some ADMIN_PASSWORD then (Inl IncorrectPassword, [])
      else
        (case find_student db student_id of
           Inl e \<Rightarrow> (Inl (Unhandled e), [])
         | Inr None \<Rightarrow> (Inl StudentNotFound, [])
         | Inr (Some student) \<Rightarrow> (Inr (), [delete_cascade db student])))"

text \<open>\<^verbatim>\<open>PUT /students/<id>/payments\<close>; \<open>paid_till\<close> is \<^verbatim>\<open>data.get('paid_till')\<close>.\<close>

definition update_student_payment ::
  "database \<Rightarrow> int \<Rightarrow> string option \<Rightarrow> payment outcome" where
  "update_student_payment db student_id paid_till =
     (case find_student db student_id of
        Inl e \<Rightarrow> (Inl (Unhandled e), [])
      | Inr None \<Rightarrow> (Inl StudentNotFound, [])
      | Inr (Some student) \<Rightarrow>
          if \<not> truthy paid_till then (Inl PaidTillRequired, [])
          else
            (case strptime (case paid_till of Some s \<Rightarrow> s | None \<Rightarrow> []) of
               None \<Rightarrow> (Inl InvalidFormat, [])
             | Some _ \<Rightarrow>
                 (let (new_payment, db') =
                        insert_payment db (s_id student) (case paid_till of Some s \<Rightarrow> s | None \<Rightarrow> [])
                  in (Inr new_payment, [db']))))"

section \<open>The data of \<^verbatim>\<open>init_db_and_data\<close>\<close>

text \<open>The five students and six payments that \<^verbatim>\<open>init_db_and_data\<close> inserts into an
  empty database, with the keys they receive. They serve as concrete inputs below.\<close>

definition student1 :: student where
  "student1 = \<lparr>s_id = 1, s_name = ''Alice Wonderland'', s_address = Some ''123 Rabbit Hole'',
     s_phone = Some ''9876543210'', s_admission_date = ''2023-01-10'',
     s_admission_cancel_date = None, s_monthly_fee = 1500\<rparr>"

definition student2 :: student where
  "student2 = \<lparr>s_id = 2, s_name = ''Bob The Builder'',
     s_address = Some ''456 Construction Site'', s_phone = Some ''1234567890'',
     s_admission_date = ''2023-03-01'', s_admission_cancel_date = None,
     s_monthly_fee = 1200\<rparr>"

definition student3 :: student where
  "student3 = \<lparr>s_id = 3, s_name = ''Charlie Chaplin'',
     s_address = Some ''789 Hollywood Blvd'', s_phone = Some ''9988776655'',
     s_admission_date = ''2024-01-05'', s_admission_cancel_date = None,
     s_monthly_fee = 2000\<rparr>"

definition student4 :: student where
  "student4 = \<lparr>s_id = 4, s_name = ''Diana Prince'', s_address = Some ''Themyscira'',
     s_phone = Some ''1122334455'', s_admission_date = ''2024-05-20'',
     s_admission_cancel_date = None, s_monthly_fee = 1800\<rparr>"

definition student5 :: student where
  "student5 = \<lparr>s_id = 5, s_name = ''Bruce Wayne'', s_address = Some ''Batcave'',
     s_phone = Some ''6677889900'', s_admission_date = ''2024-06-15'',
     s_admission_cancel_date = None, s_monthly_fee = 2500\<rparr>"

definition dummy_payments :: "payment list" where
  "dummy_payments =
     [\<lparr>p_id = 1, p_student_id = 1, p_paid_till = ''2024-05-31''\<rparr>,
      \<lparr>p_id = 2, p_student_id = 1, p_paid_till = ''2024-06-30''\<rparr>,
      \<lparr>p_id = 3, p_student_id = 2, p_paid_till = ''2023-07-31''\<rparr>,
      \<lparr>p_id = 4, p_student_id = 3, p_paid_till = ''2024-01-31''\<rparr>,
      \<lparr>p_id = 5, p_student_id = 4, p_paid_till = ''2024-05-31''\<rparr>,
      \<lparr>p_id = 6, p_student_id = 4, p_paid_till = ''2024-06-30''\<rparr>]"

definition dummy_data :: database where
  "dummy_data =
     \<lparr>students = [student1, student2, student3, student4, student5],
      payments = dummy_payments\<rparr>"

text \<open>A request body for \<^verbatim>\<open>POST /students\<close> with every required field.\<close>

definition example_request :: add_student_request where
  "example_request =
     \<lparr>req_name = Some ''Clark Kent'', req_address = None, req_phone = None,
      req_admission_date = Some ''2024-06-15'', req_initial_paid_till = Some ''2024-06-30'',
      req_monthly_fee = Some (FeeNumber 1000)\<rparr>"

section \<open>Properties of the calculator\<close>

lemmas strptime_defs = strptime_def regex_matches_def match_Y_def match_m_def match_d_def
  literal_def two_digits_def one_digit_def digit_in_def digit_def valid_date_def
  days_in_month_def is_leap_def

lemma strptime_valid: "strptime s = Some d \<Longrightarrow> valid_date d"
  by (auto simp: strptime_def split: list.splits if_splits)

lemma strptime_Nil: "strptime [] = None"
  by (simp add: strptime_defs)

lemma days_in_month_pos: "1 \<le> days_in_month y m"
  by (simp add: days_in_month_def)

lemma start_pending_next_month:
  assumes "valid_date p" "\<not> (year p = 9999 \<and> month p = 12)"
  shows "start_pending p = Inr (first_of_next_month p)"
proof -
  obtain y m n where p: "p = \<lparr>year = y, month = m, day = n\<rparr>"
    by (cases p) simp
  have v: "m = 12 \<Longrightarrow> valid_date \<lparr>year = y + 1, month = 1, day = 1\<rparr>"
    "m \<noteq> 12 \<Longrightarrow> valid_date \<lparr>year = y, month = m + 1, day = 1\<rparr>"
    using assms by (auto simp: p valid_date_def days_in_month_pos)
  show ?thesis
  proof (cases "n < days_in_month y m")
    case True
    then have "plus_one_day p = Inr \<lparr>year = y, month = m, day = n + 1\<rparr>"
      by (simp add: p plus_one_day_def)
    moreover have "n + 1 \<noteq> 1" using assms(1) by (simp add: p valid_date_def)
    ultimately show ?thesis using v
      by (simp add: p start_pending_def replace_def first_of_next_month_def Let_def)
  next
    case False
    with assms show ?thesis
      by (simp add: p start_pending_def plus_one_day_def first_of_next_month_def valid_date_def)
  qed
qed

lemma day1_adjustment_iff:
  assumes "valid_date today" "valid_date p"
  shows "day1_adjustment today p \<longleftrightarrow>
           day today = 1 \<and> month today \<noteq> 1 \<and> year p = year today \<and> month p = month today - 1"
proof (cases "month today = 1")
  case True
  with assms show ?thesis by (auto simp: day1_adjustment_def valid_date_def)
next
  case False
  with assms(1) have "(month today - 1) mod 12 = month today - 1"
    by (simp add: valid_date_def)
  with False show ?thesis by (auto simp: day1_adjustment_def)
qed

text \<open>
  Claim C1. With no payment recorded (\<^verbatim>\<open>latest_paid_till_str\<close> is \<^verbatim>\<open>None\<close> or empty), a
  valid reference date and an admission date that parses, the calculator returns 0
  pending months when admission and reference fall in the same month of the same year,
  and otherwise \<open>(ref.year - adm.year) * 12 + (ref.month - adm.month) + 1\<close>; the guard
  \<^verbatim>\<open>today.day < 1 and months_diff > 0\<close> of the extra adjustment is false for every
  valid reference date and every \<open>months_diff\<close>.
\<close>
theorem no_payment_pending_months:
  assumes "valid_date today" and "strptime admission_date_str = Some adm"
    and "\<not> truthy latest_paid_till_str"
  shows "calculate_pending_fees today fee admission_date_str latest_paid_till_str =
           (let m = (if year adm = year today \<and> month adm = month today then 0
                     else (year today - year adm) * 12 + (month today - month adm) + 1)
            in Inr (m, if m > 0 then fee * of_int m else 0))
         \<and> \<not> no_payment_adjustment today months_diff"
proof -
  have adj: "\<not> no_payment_adjustment today k" for k
    using assms(1) by (simp add: no_payment_adjustment_def valid_date_def)
  have "valid_date adm" using assms(2) by (rule strptime_valid)
  with assms(1) have "(year today - year adm) * 12 + (month today - month adm) = 0
      \<longleftrightarrow> year adm = year today \<and> month adm = month today"
    unfolding valid_date_def by arith
  then have "pending_no_payment today adm =
     (if year adm = year today \<and> month adm = month today then 0
      else (year today - year adm) * 12 + (month today - month adm) + 1)"
    using adj by (auto simp: pending_no_payment_def Let_def)
  then show ?thesis
    using assms(2,3) adj
    by (simp add: calculate_pending_fees_def pending_months_of_def Let_def)
qed

text \<open>The statement of C1 at the fourth and third scenarios of the specification.\<close>
theorem no_payment_pending_months_witness:
  "calculate_pending_fees \<lparr>year = 2024, month = 8, day = 1\<rparr> 2500 ''2024-06-15'' None
     = Inr (3, 7500)
   \<and> calculate_pending_fees \<lparr>year = 2024, month = 6, day = 20\<rparr> 2500 ''2024-06-15'' None
     = Inr (0, 0)
   \<and> \<not> no_payment_adjustment \<lparr>year = 2024, month = 8, day = 1\<rparr> 2"
  using no_payment_pending_months [of "\<lparr>year = 2024, month = 8, day = 1\<rparr>" "''2024-06-15''"
      "\<lparr>year = 2024, month = 6, day = 15\<rparr>" None 2500 2]
    no_payment_pending_months [of "\<lparr>year = 2024, month = 6, day = 20\<rparr>" "''2024-06-15''"
      "\<lparr>year = 2024, month = 6, day = 15\<rparr>" None 2500 2]
  by (simp add: strptime_defs truthy_def)

text \<open>
  Away from December 9999 the payment branch is as the specification describes it. With
  a payment whose paid-till date parses and does not lie in December 9999,
  \<^verbatim>\<open>start_pending_dt\<close> is the first day of the month after the month of
  the paid-till date, whatever its day of month, and the pending months are: 0 when the
  (year, month) of that start is after the reference (year, month), otherwise
  \<open>(ref.year - start.year) * 12 + (ref.month - start.month) + 1\<close>; from this value the
  day-1 adjustment takes one when its guard holds.
\<close>
theorem payment_pending_months:
  assumes "valid_date today" and "strptime s = Some paid_till"
    and "\<not> (year paid_till = 9999 \<and> month paid_till = 12)"
  shows "start_pending paid_till = Inr (first_of_next_month paid_till)
     \<and> calculate_pending_fees today fee admission_date_str (Some s) =
         (let start = first_of_next_month paid_till;
              before_adjustment =
                (if year start > year today \<or> (year start = year today \<and> month start > month today)
                 then 0
                 else (year today - year start) * 12 + (month today - month start) + 1);
              pending_months =
                before_adjustment - (if day1_adjustment today paid_till then 1 else 0)
          in Inr (pending_months,
                  if pending_months > 0 then fee * of_int pending_months else 0))"
proof -
  have v: "valid_date paid_till" using assms(2) by (rule strptime_valid)
  have sp: "start_pending paid_till = Inr (first_of_next_month paid_till)"
    using v assms(3) by (rule start_pending_next_month)
  have ne: "s \<noteq> []" using assms(2) strptime_Nil by auto
  have adj: "day1_adjustment today paid_till \<Longrightarrow>
      \<not> (year (first_of_next_month paid_till) > year today \<or>
         (year (first_of_next_month paid_till) = year today
            \<and> month (first_of_next_month paid_till) > month today))"
    using assms(1) v unfolding day1_adjustment_iff [OF assms(1) v]
    by (auto simp: first_of_next_month_def valid_date_def)
  have "pending_months_of today admission_date_str (Some s) =
      Inr ((if year (first_of_next_month paid_till) > year today \<or>
               (year (first_of_next_month paid_till) = year today
                  \<and> month (first_of_next_month paid_till) > month today)
            then 0
            else (year today - year (first_of_next_month paid_till)) * 12
                   + (month today - month (first_of_next_month paid_till)) + 1)
           - (if day1_adjustment today paid_till then 1 else 0))"
    using sp ne assms(2) adj
    by (auto simp: pending_months_of_def truthy_def pending_from_start_def Let_def)
  then show ?thesis
    using sp by (simp add: calculate_pending_fees_def Let_def)
qed


text \<open>The same at a paid-till date in mid-month and at the second scenario of the
  specification.\<close>
theorem payment_pending_months_witness:
  "start_pending \<lparr>year = 2024, month = 6, day = 15\<rparr>
     = Inr \<lparr>year = 2024, month = 7, day = 1\<rparr>
   \<and> calculate_pending_fees \<lparr>year = 2024, month = 7, day = 15\<rparr> 1200 ''2023-03-01''
       (Some ''2023-07-31'') = Inr (12, 14400)"
  using payment_pending_months [of "\<lparr>year = 2024, month = 7, day = 15\<rparr>" "''2023-07-31''"
      "\<lparr>year = 2023, month = 7, day = 31\<rparr>" 1200 "''2023-03-01''"]
    payment_pending_months [of "\<lparr>year = 2024, month = 7, day = 15\<rparr>" "''2024-06-15''"
      "\<lparr>year = 2024, month = 6, day = 15\<rparr>" 1200 "''2023-03-01''"]
  by (simp add: strptime_defs first_of_next_month_def day1_adjustment_def)

text \<open>
  Claim C2. The paid-till date 9999-12-31 passes validation, and the calculator does not
  return on it: the day after is outside the range of \<^verbatim>\<open>datetime\<close> and the addition
  raises \<^verbatim>\<open>OverflowError\<close>; on 9999-12-15 it raises \<^verbatim>\<open>ValueError\<close>, since
  \<^verbatim>\<open>replace\<close> is asked for the year 10000. The claim says 0 pending months for
  both, as the calculator returns for 9999-11-30.
\<close>
theorem payment_december_9999_raises:
  "valid_date \<lparr>year = 2024, month = 7, day = 15\<rparr>
   \<and> strptime ''9999-12-31'' = Some \<lparr>year = 9999, month = 12, day = 31\<rparr>
   \<and> calculate_pending_fees \<lparr>year = 2024, month = 7, day = 15\<rparr> 1500 ''2023-01-10''
       (Some ''9999-12-31'') = Inl OverflowError
   \<and> strptime ''9999-12-15'' = Some \<lparr>year = 9999, month = 12, day = 15\<rparr>
   \<and> calculate_pending_fees \<lparr>year = 2024, month = 7, day = 15\<rparr> 1500 ''2023-01-10''
       (Some ''9999-12-15'') = Inl ValueError
   \<and> calculate_pending_fees \<lparr>year = 2024, month = 7, day = 15\<rparr> 1500 ''2023-01-10''
       (Some ''9999-11-30'') = Inr (0, 0)"
  by (simp add: strptime_defs calculate_pending_fees_def pending_months_of_def truthy_def
      start_pending_def plus_one_day_def replace_def pending_from_start_def)

text \<open>Every paid-till date in December 9999 makes the calculator raise, at every
  reference date: the last day with \<^verbatim>\<open>OverflowError\<close>, the other days with
  \<^verbatim>\<open>ValueError\<close>.\<close>

lemma december_9999_raises:
  assumes "strptime s = Some paid_till"
    and "year paid_till = 9999" and "month paid_till = 12"
  shows "calculate_pending_fees today fee admission_date_str (Some s) =
           Inl (if day paid_till = 31 then OverflowError else ValueError)"
proof -
  obtain n where p: "paid_till = \<lparr>year = 9999, month = 12, day = n\<rparr>"
    using assms(2,3) by (cases paid_till) simp
  have v: "1 \<le> n" "n \<le> 31"
    using strptime_valid [OF assms(1)] by (simp_all add: p valid_date_def days_in_month_def)
  have ne: "s \<noteq> []" using assms(1) strptime_Nil by auto
  have "start_pending paid_till = Inl (if n = 31 then OverflowError else ValueError)"
    using v
    by (auto simp: p start_pending_def plus_one_day_def replace_def valid_date_def
        days_in_month_def Let_def)
  then show ?thesis
    using assms(1) ne
    by (simp add: p calculate_pending_fees_def pending_months_of_def truthy_def)
qed

text \<open>
  Claim C3. On the first of January with a paid-till date in the preceding December the
  guard of the adjustment is false (\<^verbatim>\<open>(today.month - 1) % 12\<close> is 0, and no month is 0),
  so nothing is subtracted and one month is reported pending; on the first of February
  with a paid-till date in January the adjustment is made and 0 months are pending.
\<close>
theorem january_first_not_adjusted:
  "strptime ''2023-12-31'' = Some \<lparr>year = 2023, month = 12, day = 31\<rparr>
   \<and> \<not> day1_adjustment \<lparr>year = 2024, month = 1, day = 1\<rparr> \<lparr>year = 2023, month = 12, day = 31\<rparr>
   \<and> calculate_pending_fees \<lparr>year = 2024, month = 1, day = 1\<rparr> 1500 ''2023-01-10''
       (Some ''2023-12-31'') = Inr (1, 1500)
   \<and> calculate_pending_fees \<lparr>year = 2024, month = 2, day = 1\<rparr> 1500 ''2023-01-10''
       (Some ''2024-01-31'') = Inr (0, 0)"
  by (simp add: strptime_defs calculate_pending_fees_def pending_months_of_def truthy_def
      start_pending_def plus_one_day_def pending_from_start_def day1_adjustment_def)

text \<open>
  Claim C4 as stated fails: with no payment and an admission date two months after the
  reference date, the calculator returns \<open>- 1\<close> pending months and the amount 0, which
  is not \<open>100 * (- 1)\<close>.
\<close>
theorem future_admission_negative_months:
  "valid_date \<lparr>year = 2024, month = 1, day = 15\<rparr>
   \<and> strptime ''2024-03-10'' = Some \<lparr>year = 2024, month = 3, day = 10\<rparr>
   \<and> calculate_pending_fees \<lparr>year = 2024, month = 1, day = 15\<rparr> 100 ''2024-03-10'' None
       = Inr (- 1, 0)"
  by (simp add: strptime_defs calculate_pending_fees_def pending_months_of_def truthy_def
      pending_no_payment_def no_payment_adjustment_def)

lemma pending_from_start_nonneg:
  assumes "valid_date today" "valid_date p"
  shows "0 \<le> pending_from_start today p (first_of_next_month p)"
proof (cases "day1_adjustment today p")
  case True
  then have "day today = 1 \<and> month today \<noteq> 1 \<and> year p = year today \<and> month p = month today - 1"
    using day1_adjustment_iff [OF assms] by simp
  then show ?thesis using assms
    by (auto simp: pending_from_start_def first_of_next_month_def valid_date_def Let_def)
next
  case False
  have "year (first_of_next_month p) > year today \<or>
      (year (first_of_next_month p) = year today \<and> month (first_of_next_month p) > month today)
    \<or> 0 \<le> (year today - year (first_of_next_month p)) * 12
          + (month today - month (first_of_next_month p))"
    using assms unfolding valid_date_def first_of_next_month_def
    by (cases "month p = 12") (simp; arith)+
  with False show ?thesis
    by (auto simp: pending_from_start_def Let_def)
qed

text \<open>
  Claim C4, as amended. For a valid reference date, a non-negative fee, an admission
  date that parses, and a paid-till date that is absent or parses and does not lie in
  December 9999, the calculator returns; the pending amount is non-negative and equals
  the fee times the pending months floored at 0; and when a payment exists, or the
  admission month is at most one month after the reference month, the pending months
  are non-negative and the amount is the fee times the pending months.
\<close>
theorem pending_amount_contract:
  assumes "valid_date today" and "0 \<le> fee" and "strptime admission_date_str = Some adm"
    and "\<not> truthy latest \<or>
         (latest = Some s \<and> strptime s = Some p \<and> \<not> (year p = 9999 \<and> month p = 12))"
  shows "case calculate_pending_fees today fee admission_date_str latest of
           Inl e \<Rightarrow> False
         | Inr (pending_months, pending_amount) \<Rightarrow>
             0 \<le> pending_amount
             \<and> pending_amount = fee * of_int (max pending_months 0)
             \<and> (truthy latest \<or>
                  - 1 \<le> (year today - year adm) * 12 + (month today - month adm)
                \<longrightarrow> 0 \<le> pending_months \<and> pending_amount = fee * of_int pending_months)"
proof (cases "truthy latest")
  case False
  then have "pending_months_of today admission_date_str latest
      = Inr (pending_no_payment today adm)"
    using assms(3) by (simp add: pending_months_of_def)
  moreover have "- 1 \<le> (year today - year adm) * 12 + (month today - month adm)
      \<Longrightarrow> 0 \<le> pending_no_payment today adm"
    using assms(1)
    by (auto simp: pending_no_payment_def no_payment_adjustment_def valid_date_def Let_def)
  ultimately show ?thesis
    using False assms(2) by (auto simp: calculate_pending_fees_def max_def)
next
  case True
  with assms(4) have l: "latest = Some s" "strptime s = Some p"
    "\<not> (year p = 9999 \<and> month p = 12)" by auto
  have v: "valid_date p" using l(2) by (rule strptime_valid)
  have "start_pending p = Inr (first_of_next_month p)"
    using v l(3) by (rule start_pending_next_month)
  then have "pending_months_of today admission_date_str latest
      = Inr (pending_from_start today p (first_of_next_month p))"
    using True l by (simp add: pending_months_of_def)
  moreover have "0 \<le> pending_from_start today p (first_of_next_month p)"
    using assms(1) v by (rule pending_from_start_nonneg)
  ultimately show ?thesis
    using assms(2) by (auto simp: calculate_pending_fees_def max_def)
qed

text \<open>The statement of C4 at the second scenario of the specification and at an
  admission one month after the reference date.\<close>
theorem pending_amount_contract_witness:
  "calculate_pending_fees \<lparr>year = 2024, month = 7, day = 15\<rparr> 1200 ''2023-03-01''
       (Some ''2023-07-31'') = Inr (12, 14400)
   \<and> calculate_pending_fees \<lparr>year = 2024, month = 1, day = 15\<rparr> 100 ''2024-02-10'' None
       = Inr (0, 0)"
  using pending_amount_contract [of "\<lparr>year = 2024, month = 7, day = 15\<rparr>" 1200 "''2023-03-01''"
      "\<lparr>year = 2023, month = 3, day = 1\<rparr>" "Some ''2023-07-31''" "''2023-07-31''"
      "\<lparr>year = 2023, month = 7, day = 31\<rparr>"]
    pending_amount_contract [of "\<lparr>year = 2024, month = 1, day = 15\<rparr>" 100 "''2024-02-10''"
      "\<lparr>year = 2024, month = 2, day = 10\<rparr>" None "[]" "\<lparr>year = 1, month = 1, day = 1\<rparr>"]
  by (simp add: strptime_defs truthy_def calculate_pending_fees_def pending_months_of_def
      start_pending_def plus_one_day_def pending_from_start_def day1_adjustment_def
      pending_no_payment_def no_payment_adjustment_def)

section \<open>Properties of the ledger operations\<close>

lemma fold_max_ge: "(a::int) \<le> fold max xs a"
proof (induction xs arbitrary: a)
  case Nil
  show ?case by simp
next
  case (Cons y ys)
  have "a \<le> max y a" by simp
  also have "\<dots> \<le> fold max ys (max y a)" by (rule Cons.IH)
  finally show ?case by simp
qed

lemma fold_max_mem: "x \<in> set xs \<Longrightarrow> (x::int) \<le> fold max xs a"
proof (induction xs arbitrary: a)
  case Nil
  then show ?case by simp
next
  case (Cons y ys)
  show ?case
  proof (cases "x = y")
    case True
    have "y \<le> max y a" by simp
    also have "\<dots> \<le> fold max ys (max y a)" by (rule fold_max_ge)
    finally show ?thesis using True by simp
  next
    case False
    with Cons show ?thesis by simp
  qed
qed

lemma next_id_fresh: "next_id ids \<notin> set ids"
proof
  assume "next_id ids \<in> set ids"
  then have "next_id ids \<le> fold max ids 0" by (rule fold_max_mem)
  then show False by (simp add: next_id_def)
qed

lemma sorted_le_last:
  fixes ys :: "'a::linorder list"
  shows "sorted ys \<Longrightarrow> y \<in> set ys \<Longrightarrow> y \<le> last ys"
  by (induction ys) auto

lemma sorted_last_Max:
  fixes ys :: "'a::linorder list"
  assumes "sorted ys" "ys \<noteq> []"
  shows "last ys = Max (set ys)"
proof (rule sym, rule Max_eqI)
  show "finite (set ys)" by simp
  show "y \<le> last ys" if "y \<in> set ys" for y using assms(1) that by (rule sorted_le_last)
  show "last ys \<in> set ys" using assms(2) by simp
qed

lemma order_by_desc_Nil: "order_by_paid_till_desc ps = [] \<longleftrightarrow> ps = []"
proof -
  have "length (order_by_paid_till_desc ps) = length ps"
    by (simp add: order_by_paid_till_desc_def)
  then show ?thesis by (metis length_0_conv)
qed

lemma order_by_desc_hd:
  assumes "order_by_paid_till_desc ps = p # rest"
  shows "p_paid_till p = Max (p_paid_till ` set ps)"
proof -
  let ?ys = "sort_key p_paid_till (rev ps)"
  have ne: "?ys \<noteq> []" using assms by (auto simp: order_by_paid_till_desc_def)
  have "rev ?ys = p # rest" using assms by (simp add: order_by_paid_till_desc_def)
  then have "p = last ?ys" using ne by (metis hd_rev list.sel(1))
  then have "p_paid_till p = last (map p_paid_till ?ys)" using ne by (simp add: last_map)
  also have "\<dots> = Max (set (map p_paid_till ?ys))"
    using ne by (intro sorted_last_Max) (simp_all add: sorted_sort_key)
  also have "\<dots> = Max (p_paid_till ` set ps)" by simp
  finally show ?thesis .
qed

lemma latest_paid_till_Max:
  "latest_paid_till db self =
     (let own = filter (\<lambda>p. p_student_id p = s_id self) (payments db)
      in if own = [] then None else Some (Max (p_paid_till ` set own)))"
proof (cases "student_payments db (s_id self)")
  case Nil
  then have f: "filter (\<lambda>p. p_student_id p = s_id self) (payments db) = []"
    unfolding student_payments_def by (simp only: order_by_desc_Nil)
  have "latest_paid_till db self = None"
    by (simp add: latest_paid_till_def Nil)
  moreover have "(let own = filter (\<lambda>p. p_student_id p = s_id self) (payments db)
      in if own = [] then None else Some (Max (p_paid_till ` set own))) = None"
    by (simp only: f Let_def simp_thms if_True)
  ultimately show ?thesis by (simp only:)
next
  case (Cons p rest)
  have "order_by_paid_till_desc (filter (\<lambda>p. p_student_id p = s_id self) (payments db))
      \<noteq> []"
    using Cons unfolding student_payments_def by simp
  then have ne: "filter (\<lambda>p. p_student_id p = s_id self) (payments db) \<noteq> []"
    by (simp only: order_by_desc_Nil not_False_eq_True)
  have mx: "p_paid_till p =
      Max (p_paid_till ` set (filter (\<lambda>p. p_student_id p = s_id self) (payments db)))"
    using Cons unfolding student_payments_def by (rule order_by_desc_hd)
  have "latest_paid_till db self = Some (p_paid_till p)"
    by (simp add: latest_paid_till_def Cons)
  moreover have "(let own = filter (\<lambda>p. p_student_id p = s_id self) (payments db)
      in if own = [] then None else Some (Max (p_paid_till ` set own)))
      = Some (p_paid_till p)"
    using ne by (simp only: Let_def if_False mx)
  ultimately show ?thesis by (simp only:)
qed

text \<open>
  Claim C10. The view of a student is a function of the student row, the set of the
  payment rows that belong to the student, and the reference date: two databases that
  hold the same set of payment rows for the student (in any order, among any other
  rows) give the same latest paid-till date and the same view, at the same reference
  date. The calculator itself takes the fee, the two date strings and the reference
  date as its only arguments.
\<close>
theorem view_depends_on_payment_set:
  assumes "set (filter (\<lambda>p. p_student_id p = s_id self) (payments db1))
         = set (filter (\<lambda>p. p_student_id p = s_id self) (payments db2))"
  shows "latest_paid_till db1 self = latest_paid_till db2 self
       \<and> to_dict today db1 self = to_dict today db2 self"
proof -
  have e: "filter (\<lambda>p. p_student_id p = s_id self) (payments db1) = [] \<longleftrightarrow>
        filter (\<lambda>p. p_student_id p = s_id self) (payments db2) = []"
    using assms by (metis set_empty)
  have "latest_paid_till db1 self = latest_paid_till db2 self"
    unfolding latest_paid_till_Max Let_def using assms e by simp
  then show ?thesis by (simp add: to_dict_def split: sum.splits)
qed

text \<open>The statement of C10 for the first student of the initial data, against a
  database that holds the payment rows in reverse order.\<close>
theorem view_depends_on_payment_set_witness:
  "to_dict \<lparr>year = 2024, month = 7, day = 15\<rparr> dummy_data student1
     = to_dict \<lparr>year = 2024, month = 7, day = 15\<rparr>
         \<lparr>students = [student1], payments = rev dummy_payments\<rparr> student1
   \<and> latest_paid_till dummy_data student1 = Some ''2024-06-30''"
proof -
  have "latest_paid_till dummy_data student1 = Some ''2024-06-30''"
    by (simp add: latest_paid_till_def student_payments_def order_by_paid_till_desc_def
        dummy_data_def dummy_payments_def student1_def)
  then show ?thesis
    using view_depends_on_payment_set [of student1 dummy_data
        "\<lparr>students = [student1], payments = rev dummy_payments\<rparr>"
        "\<lparr>year = 2024, month = 7, day = 15\<rparr>"]
    by (simp add: dummy_data_def)
qed

lemma pending_loop_views:
  "pending_loop today db xs acc =
     (case get_student_views today db xs of
        Inl e \<Rightarrow> Inl e
      | Inr vs \<Rightarrow> Inr (acc @ filter (\<lambda>v. v_pending_amount v > 0) vs))"
proof (induction xs arbitrary: acc)
  case Nil
  show ?case by simp
next
  case (Cons s rest)
  show ?case
  proof (cases "to_dict today db s")
    case (Inl e)
    then show ?thesis by simp
  next
    case (Inr v)
    have pos: "(v_pending_amount v \<noteq> 0 \<and> v_pending_amount v > 0) \<longleftrightarrow> v_pending_amount v > 0"
      by auto
    show ?thesis
      by (cases "get_student_views today db rest") (simp_all add: Inr Cons.IH)
  qed
qed

text \<open>
  Claim C9. The loop of \<^verbatim>\<open>get_pending_students\<close> computes what the specification says
  of \<^verbatim>\<open>list_pending\<close>: the views of the listed students, in listing order, of which
  those with a pending amount above 0 are kept.
\<close>
theorem get_pending_students_list_pending:
  "get_pending_students today db = list_pending today db (students db)"
  by (simp add: get_pending_students_def list_pending_def pending_loop_views
      split: sum.splits)

lemma find_student_id:
  "find_student db student_id = Inr (Some s) \<Longrightarrow> s_id s = student_id"
  by (auto simp: find_student_def find_Some_iff split: if_splits)

text \<open>
  Claim C8. For an existing student and a paid-till date that parses,
  \<^verbatim>\<open>update_student_payment\<close> commits once; the committed database is the old one with
  one payment row added at the end, for that student, with the given date and a key no
  earlier row has; the row is returned; students and earlier payment rows are as they
  were.
\<close>
theorem record_payment_frame:
  assumes "find_student db student_id = Inr (Some student)"
    and "strptime paid_till = Some d"
  shows "update_student_payment db student_id (Some paid_till) =
           (Inr \<lparr>p_id = next_id (map p_id (payments db)), p_student_id = student_id,
                  p_paid_till = paid_till\<rparr>,
            [db\<lparr>payments := payments db @
                  [\<lparr>p_id = next_id (map p_id (payments db)), p_student_id = student_id,
                    p_paid_till = paid_till\<rparr>]\<rparr>])
       \<and> next_id (map p_id (payments db)) \<notin> set (map p_id (payments db))"
proof -
  have ne: "paid_till \<noteq> []" using assms(2) strptime_Nil by auto
  have "s_id student = student_id" using assms(1) by (rule find_student_id)
  then show ?thesis
    using assms ne next_id_fresh [of "map p_id (payments db)"]
    by (simp add: update_student_payment_def truthy_def insert_payment_def Let_def)
qed

lemma add_student_error_no_commit:
  assumes "fst (add_student float_of_text today db data) = Inl MissingFields
         \<or> fst (add_student float_of_text today db data) = Inl InvalidFormat"
  shows "snd (add_student float_of_text today db data) = []"
  using assms
  by (auto simp: add_student_def Let_def insert_student_def insert_payment_def
      split: if_splits option.splits sum.splits float_value.splits)

text \<open>
  Claim C7. When \<^verbatim>\<open>add_student\<close> misses a required field, or cannot convert the fee,
  or cannot parse one of its two dates, and when \<^verbatim>\<open>update_student_payment\<close> does not
  find the student, or has no paid-till date, or cannot parse it, the handler answers
  with the error and commits nothing: the store is the one it started from. The same
  holds of the exceptions that leave the handlers before any commit: they are answered
  as such and nothing is committed. Whenever \<^verbatim>\<open>add_student\<close> answers with one of its
  two validation errors, it has committed nothing.
\<close>
theorem validation_failure_no_write:
  "(\<not> required_fields data \<longrightarrow>
      add_student float_of_text today db data = (Inl MissingFields, []))
   \<and> (required_fields data \<and> req_monthly_fee data = Some fee
        \<and> py_float float_of_text fee = Inl ValueError \<longrightarrow>
      add_student float_of_text today db data = (Inl InvalidFormat, []))
   \<and> (required_fields data \<and> req_monthly_fee data = Some fee
        \<and> py_float float_of_text fee = Inl e \<and> e \<noteq> ValueError \<longrightarrow>
      add_student float_of_text today db data = (Inl (Unhandled e), []))
   \<and> (required_fields data \<and> req_monthly_fee data = Some fee
        \<and> py_float float_of_text fee = Inr v
        \<and> req_admission_date data = Some admission_date
        \<and> req_initial_paid_till data = Some initial_paid_till
        \<and> (strptime admission_date = None \<or> strptime initial_paid_till = None) \<longrightarrow>
      add_student float_of_text today db data = (Inl InvalidFormat, []))
   \<and> (fst (add_student float_of_text today db data) = Inl MissingFields
        \<or> fst (add_student float_of_text today db data) = Inl InvalidFormat \<longrightarrow>
      snd (add_student float_of_text today db data) = [])
   \<and> (find_student db student_id = Inl e' \<longrightarrow>
      update_student_payment db student_id paid_till = (Inl (Unhandled e'), []))
   \<and> (find_student db student_id = Inr None \<longrightarrow>
      update_student_payment db student_id paid_till = (Inl StudentNotFound, []))
   \<and> (find_student db student_id = Inr (Some student) \<and> \<not> truthy paid_till \<longrightarrow>
      update_student_payment db student_id paid_till = (Inl PaidTillRequired, []))
   \<and> (find_student db student_id = Inr (Some student) \<and> paid_till = Some t \<and> t \<noteq> []
        \<and> strptime t = None \<longrightarrow>
      update_student_payment db student_id paid_till = (Inl InvalidFormat, []))
   \<and> final_state db [] = db"
proof (intro conjI impI)
  show "add_student float_of_text today db data = (Inl MissingFields, [])"
    if "\<not> required_fields data"
    using that by (simp add: add_student_def)
  show "add_student float_of_text today db data = (Inl InvalidFormat, [])"
    if "required_fields data \<and> req_monthly_fee data = Some fee
        \<and> py_float float_of_text fee = Inl ValueError"
    using that
    by (auto simp: add_student_def required_fields_def truthy_def split: option.splits)
  show "add_student float_of_text today db data = (Inl (Unhandled e), [])"
    if "required_fields data \<and> req_monthly_fee data = Some fee
        \<and> py_float float_of_text fee = Inl e \<and> e \<noteq> ValueError"
    using that
    by (auto simp: add_student_def required_fields_def truthy_def split: option.splits)
  show "add_student float_of_text today db data = (Inl InvalidFormat, [])"
    if "required_fields data \<and> req_monthly_fee data = Some fee
        \<and> py_float float_of_text fee = Inr v
        \<and> req_admission_date data = Some admission_date
        \<and> req_initial_paid_till data = Some initial_paid_till
        \<and> (strptime admission_date = None \<or> strptime initial_paid_till = None)"
    using that
    by (auto simp: add_student_def required_fields_def truthy_def split: option.splits)
  show "snd (add_student float_of_text today db data) = []"
    if "fst (add_student float_of_text today db data) = Inl MissingFields
        \<or> fst (add_student float_of_text today db data) = Inl InvalidFormat"
    using that by (rule add_student_error_no_commit)
  show "update_student_payment db student_id paid_till = (Inl (Unhandled e'), [])"
    if "find_student db student_id = Inl e'"
    using that by (simp add: update_student_payment_def)
  show "update_student_payment db student_id paid_till = (Inl StudentNotFound, [])"
    if "find_student db student_id = Inr None"
    using that by (simp add: update_student_payment_def)
  show "update_student_payment db student_id paid_till = (Inl PaidTillRequired, [])"
    if "find_student db student_id = Inr (Some student) \<and> \<not> truthy paid_till"
    using that by (simp add: update_student_payment_def)
  show "update_student_payment db student_id paid_till = (Inl InvalidFormat, [])"
    if "find_student db student_id = Inr (Some student) \<and> paid_till = Some t \<and> t \<noteq> []
        \<and> strptime t = None"
    using that by (simp add: update_student_payment_def truthy_def)
  show "final_state db [] = db" by (simp add: final_state_def)
qed


text \<open>A fee that is NaN passes the validation of \<^verbatim>\<open>add_student\<close> and fails the first
  commit: the request is answered with the exception and nothing is committed.\<close>

lemma add_student_nan_no_commit:
  assumes "req_name data = Some name" and "name \<noteq> []"
    and "req_admission_date data = Some admission_date"
    and "strptime admission_date = Some a"
    and "req_initial_paid_till data = Some initial_paid_till"
    and "strptime initial_paid_till = Some b"
    and "req_monthly_fee data = Some fee" and "py_float float_of_text fee = Inr NaN"
  shows "add_student float_of_text today db data = (Inl (Unhandled IntegrityError), [])"
proof -
  have ne: "admission_date \<noteq> []" "initial_paid_till \<noteq> []"
    using assms(4,6) strptime_Nil by auto
  have req: "required_fields data"
    using assms ne by (simp add: required_fields_def truthy_def)
  show ?thesis using assms req by (simp add: add_student_def)
qed

lemma find_student_filter_other:
  "student_id' \<noteq> student_id \<Longrightarrow>
   find (\<lambda>s. s_id s = student_id') (filter (\<lambda>s. s_id s \<noteq> student_id) xs)
     = find (\<lambda>s. s_id s = student_id') xs"
  by (induction xs) auto

lemma find_student_filter_same:
  "find (\<lambda>s. s_id s = student_id) (filter (\<lambda>s. s_id s \<noteq> student_id) xs) = None"
  by (induction xs) auto

lemma filter_other_owner:
  "student_id' \<noteq> student_id \<Longrightarrow>
   filter (\<lambda>p. p_student_id p \<noteq> student_id \<and> p_student_id p = student_id') ps
     = filter (\<lambda>p. p_student_id p = student_id') ps"
  by (induction ps) auto

lemma children_keys:
  assumes "distinct (map p_id ps)" and "p \<in> set ps"
  shows "p_id p \<in> p_id ` set (filter (\<lambda>q. p_student_id q = student_id) ps)
           \<longleftrightarrow> p_student_id p = student_id"
proof
  assume "p_id p \<in> p_id ` set (filter (\<lambda>q. p_student_id q = student_id) ps)"
  then obtain q where q: "q \<in> set ps" "p_student_id q = student_id" "p_id q = p_id p"
    by auto
  from assms(1) have "inj_on p_id (set ps)" by (simp add: distinct_map)
  with q(1,3) assms(2) have "q = p" by (auto dest: inj_onD)
  with q(2) show "p_student_id p = student_id" by simp
next
  assume "p_student_id p = student_id"
  with assms(2) show "p_id p \<in> p_id ` set (filter (\<lambda>q. p_student_id q = student_id) ps)"
    by auto
qed

lemma delete_cascade_eq:
  assumes "distinct (map p_id (payments db))"
  shows "delete_cascade db student =
           \<lparr>students = filter (\<lambda>s. s_id s \<noteq> s_id student) (students db),
            payments = filter (\<lambda>p. p_student_id p \<noteq> s_id student) (payments db)\<rparr>"
proof -
  have "set (map p_id (student_payments db (s_id student)))
      = p_id ` set (filter (\<lambda>q. p_student_id q = s_id student) (payments db))"
    by (simp add: student_payments_def order_by_paid_till_desc_def)
  then have "filter (\<lambda>p. p_id p \<notin> set (map p_id (student_payments db (s_id student))))
        (payments db)
      = filter (\<lambda>p. p_student_id p \<noteq> s_id student) (payments db)"
    using children_keys [OF assms] by (intro filter_cong) auto
  then show ?thesis by (simp add: delete_cascade_def Let_def)
qed

text \<open>
  Claim C6. The handler first checks the confirmation password of the request, which
  is the authentication step and not part of the deletion; take a request that carries
  the configured password, a database whose payment keys are distinct, and an id that
  is a 64-bit integer, as every key of the store is. If the id
  exists, \<^verbatim>\<open>delete_student\<close> commits once: the student is gone, a query for the
  student's payments returns none, and every other student and that student's payments
  are as they were. If no student has the id, it answers that the student is not found
  and commits nothing: the store is unchanged.
\<close>
theorem delete_student_cascade:
  assumes "distinct (map p_id (payments db))"
    and "password_confirmation = Some ADMIN_PASSWORD"
    and "sqlite_integer student_id"
  shows "(student \<in> set (students db) \<and> s_id student = student_id \<longrightarrow>
            (let db' = \<lparr>students = filter (\<lambda>s. s_id s \<noteq> student_id) (students db),
                        payments = filter (\<lambda>p. p_student_id p \<noteq> student_id) (payments db)\<rparr>
             in delete_student ADMIN_PASSWORD db student_id password_confirmation
                  = (Inr (), [db'])
                \<and> student \<notin> set (students db')
                \<and> find_student db' student_id = Inr None
                \<and> student_payments db' student_id = []
                \<and> (\<forall>other. other \<noteq> student_id \<longrightarrow>
                      find_student db' other = find_student db other
                      \<and> student_payments db' other = student_payments db other)))
       \<and> ((\<forall>s \<in> set (students db). s_id s \<noteq> student_id) \<longrightarrow>
            delete_student ADMIN_PASSWORD db student_id password_confirmation
              = (Inl StudentNotFound, [])
            \<and> final_state db [] = db)"
proof (intro conjI impI)
  assume absent: "\<forall>s \<in> set (students db). s_id s \<noteq> student_id"
  then have "find (\<lambda>s. s_id s = student_id) (students db) = None"
    by (simp add: find_None_iff)
  then show "delete_student ADMIN_PASSWORD db student_id password_confirmation
      = (Inl StudentNotFound, [])"
    using assms(2,3) by (simp add: delete_student_def find_student_def)
  show "final_state db [] = db" by (simp add: final_state_def)
next
  assume present: "student \<in> set (students db) \<and> s_id student = student_id"
  then have "find (\<lambda>s. s_id s = student_id) (students db) \<noteq> None"
    by (auto simp: find_None_iff)
  then obtain found where found: "find (\<lambda>s. s_id s = student_id) (students db) = Some found"
    by auto
  then have sid: "s_id found = student_id" by (auto simp: find_Some_iff)
  have "delete_student ADMIN_PASSWORD db student_id password_confirmation
      = (Inr (), [delete_cascade db found])"
    using assms(2,3) found by (simp add: delete_student_def find_student_def)
  then show "let db' = \<lparr>students = filter (\<lambda>s. s_id s \<noteq> student_id) (students db),
                   payments = filter (\<lambda>p. p_student_id p \<noteq> student_id) (payments db)\<rparr>
        in delete_student ADMIN_PASSWORD db student_id password_confirmation = (Inr (), [db'])
           \<and> student \<notin> set (students db')
           \<and> find_student db' student_id = Inr None
           \<and> student_payments db' student_id = []
           \<and> (\<forall>other. other \<noteq> student_id \<longrightarrow>
                 find_student db' other = find_student db other
                 \<and> student_payments db' other = student_payments db other)"
    unfolding delete_cascade_eq [OF assms(1)] sid Let_def
    using present assms(3)
    by (simp add: find_student_def find_student_filter_same find_student_filter_other
        student_payments_def filter_other_owner order_by_paid_till_desc_def)
qed

lemmas dummy_defs = dummy_data_def dummy_payments_def student1_def student2_def
  student3_def student4_def student5_def

lemma dummy_find_student:
  "find_student dummy_data 1 = Inr (Some student1)"
  "find_student dummy_data 2 = Inr (Some student2)"
  "find_student dummy_data 99 = Inr None"
  "find_student dummy_data 9223372036854775808 = Inl OverflowError"
  by (simp_all add: find_student_def sqlite_integer_def dummy_defs)

lemma dummy_next_ids:
  "next_id (map s_id (students dummy_data)) = 6"
  "next_id (map p_id (payments dummy_data)) = 7"
  by (simp_all add: next_id_def dummy_defs)

lemma example_dates:
  "strptime ''2024-06-15'' = Some \<lparr>year = 2024, month = 6, day = 15\<rparr>"
  "strptime ''2024-06-30'' = Some \<lparr>year = 2024, month = 6, day = 30\<rparr>"
  "strptime ''2024-07-31'' = Some \<lparr>year = 2024, month = 7, day = 31\<rparr>"
  "strptime ''2024-02-30'' = None"
  "strptime ''2024-13-01'' = None"
  by (simp_all add: strptime_defs)

text \<open>The statement of C8 for the second student of the initial data.\<close>
theorem record_payment_frame_witness:
  "update_student_payment dummy_data 2 (Some ''2024-07-31'') =
     (Inr \<lparr>p_id = 7, p_student_id = 2, p_paid_till = ''2024-07-31''\<rparr>,
      [dummy_data\<lparr>payments := payments dummy_data @
          [\<lparr>p_id = 7, p_student_id = 2, p_paid_till = ''2024-07-31''\<rparr>]\<rparr>])"
  using record_payment_frame [of dummy_data 2 student2 "''2024-07-31''"
      "\<lparr>year = 2024, month = 7, day = 31\<rparr>"]
  by (simp add: dummy_find_student dummy_next_ids example_dates)

text \<open>The statement of C7 at a request without a name, a request with the date
  2024-02-30, a request with a fee beyond the range of a double, an unknown student, a
  payment for month 13 and a student id of 2^63.\<close>
theorem validation_failure_no_write_witness:
  "add_student (map_of []) \<lparr>year = 2024, month = 7, day = 15\<rparr> dummy_data
       (example_request\<lparr>req_name := None\<rparr>) = (Inl MissingFields, [])
   \<and> add_student (map_of []) \<lparr>year = 2024, month = 7, day = 15\<rparr> dummy_data
       (example_request\<lparr>req_initial_paid_till := Some ''2024-02-30''\<rparr>)
       = (Inl InvalidFormat, [])
   \<and> add_student (map_of []) \<lparr>year = 2024, month = 7, day = 15\<rparr> dummy_data
       (example_request\<lparr>req_monthly_fee := Some FeeHuge\<rparr>)
       = (Inl (Unhandled OverflowError), [])
   \<and> update_student_payment dummy_data 99 (Some ''2024-07-31'') = (Inl StudentNotFound, [])
   \<and> update_student_payment dummy_data 2 (Some ''2024-13-01'') = (Inl InvalidFormat, [])
   \<and> update_student_payment dummy_data (2 ^ 63) (Some ''2024-07-31'')
       = (Inl (Unhandled OverflowError), [])"
  using validation_failure_no_write [where data = "example_request\<lparr>req_name := None\<rparr>"
      and float_of_text = "map_of []" and today = "\<lparr>year = 2024, month = 7, day = 15\<rparr>"
      and db = dummy_data and fee = "FeeNumber 1000" and e = OverflowError
      and v = "Finite 1000" and admission_date = "''2024-06-15''"
      and initial_paid_till = "''2024-06-30''" and student_id = 99
      and paid_till = "Some ''2024-07-31''" and student = student2 and t = "''2024-07-31''"
      and e' = OverflowError]
    validation_failure_no_write [where
      data = "example_request\<lparr>req_initial_paid_till := Some ''2024-02-30''\<rparr>"
      and float_of_text = "map_of []" and today = "\<lparr>year = 2024, month = 7, day = 15\<rparr>"
      and db = dummy_data and fee = "FeeNumber 1000" and e = OverflowError
      and v = "Finite 1000" and admission_date = "''2024-06-15''"
      and initial_paid_till = "''2024-02-30''" and student_id = 2
      and paid_till = "Some ''2024-13-01''" and student = student2 and t = "''2024-13-01''"
      and e' = OverflowError]
    validation_failure_no_write [where
      data = "example_request\<lparr>req_monthly_fee := Some FeeHuge\<rparr>"
      and float_of_text = "map_of []" and today = "\<lparr>year = 2024, month = 7, day = 15\<rparr>"
      and db = dummy_data and fee = FeeHuge and e = OverflowError
      and v = "Finite 1000" and admission_date = "''2024-06-15''"
      and initial_paid_till = "''2024-06-30''" and student_id = "2 ^ 63"
      and paid_till = "Some ''2024-07-31''" and student = student2 and t = "''2024-07-31''"
      and e' = OverflowError]
  by (simp add: example_request_def required_fields_def truthy_def dummy_find_student
      example_dates py_float_def)



text \<open>The statement of C6 for the first student of the initial data, and for the id 99
  that no student has.\<close>
theorem delete_student_cascade_witness:
  "delete_student ''password'' dummy_data 1 (Some ''password'') =
     (Inr (),
      [\<lparr>students = [student2, student3, student4, student5],
        payments =
          [\<lparr>p_id = 3, p_student_id = 2, p_paid_till = ''2023-07-31''\<rparr>,
           \<lparr>p_id = 4, p_student_id = 3, p_paid_till = ''2024-01-31''\<rparr>,
           \<lparr>p_id = 5, p_student_id = 4, p_paid_till = ''2024-05-31''\<rparr>,
           \<lparr>p_id = 6, p_student_id = 4, p_paid_till = ''2024-06-30''\<rparr>]\<rparr>])
   \<and> delete_student ''password'' dummy_data 99 (Some ''password'')
       = (Inl StudentNotFound, [])"
proof -
  have d: "distinct (map p_id (payments dummy_data))"
    by (simp add: dummy_defs)
  have s: "filter (\<lambda>s. s_id s \<noteq> 1) (students dummy_data)
      = [student2, student3, student4, student5]"
    by (simp add: dummy_defs)
  have p: "filter (\<lambda>p. p_student_id p \<noteq> 1) (payments dummy_data) =
      [\<lparr>p_id = 3, p_student_id = 2, p_paid_till = ''2023-07-31''\<rparr>,
       \<lparr>p_id = 4, p_student_id = 3, p_paid_till = ''2024-01-31''\<rparr>,
       \<lparr>p_id = 5, p_student_id = 4, p_paid_till = ''2024-05-31''\<rparr>,
       \<lparr>p_id = 6, p_student_id = 4, p_paid_till = ''2024-06-30''\<rparr>]"
    by (simp add: dummy_defs)
  have m: "student1 \<in> set (students dummy_data)" "s_id student1 = 1"
    by (simp_all add: dummy_defs)
  have a: "\<forall>s \<in> set (students dummy_data). s_id s \<noteq> 99"
    by (simp add: dummy_defs)
  have i: "sqlite_integer 1" "sqlite_integer 99"
    by (simp_all add: sqlite_integer_def)
  show ?thesis
    using delete_student_cascade [OF d refl i(1), of student1 "''password''"]
      delete_student_cascade [OF d refl i(2), of student1 "''password''"]
    by (simp add: m a s p Let_def)
qed

lemma dummy_views:
  "get_student_views \<lparr>year = 2024, month = 6, day = 20\<rparr>
     \<lparr>students = [student1, student2], payments = dummy_payments\<rparr> [student1, student2] =
   Inr [\<lparr>v_id = 1, v_name = ''Alice Wonderland'', v_address = Some ''123 Rabbit Hole'',
          v_phone = Some ''9876543210'', v_admission_date = ''2023-01-10'',
          v_admission_cancel_date = None, v_monthly_fee = 1500,
          v_paid_till = Some ''2024-06-30'', v_pending_months = 0, v_pending_amount = 0\<rparr>,
        \<lparr>v_id = 2, v_name = ''Bob The Builder'',
          v_address = Some ''456 Construction Site'', v_phone = Some ''1234567890'',
          v_admission_date = ''2023-03-01'', v_admission_cancel_date = None,
          v_monthly_fee = 1200, v_paid_till = Some ''2023-07-31'', v_pending_months = 11,
          v_pending_amount = 13200\<rparr>]"
  by (simp add: to_dict_def latest_paid_till_def student_payments_def
      order_by_paid_till_desc_def dummy_payments_def student1_def student2_def
      calculate_pending_fees_def pending_months_of_def truthy_def strptime_defs
      start_pending_def plus_one_day_def pending_from_start_def day1_adjustment_def)

text \<open>The statement of C9 on the first two students of the initial data on 2024-06-20:
  the first has paid ahead and is left out, the second is kept.\<close>
theorem get_pending_students_list_pending_witness:
  "get_pending_students \<lparr>year = 2024, month = 6, day = 20\<rparr>
     \<lparr>students = [student1, student2], payments = dummy_payments\<rparr> =
   Inr [\<lparr>v_id = 2, v_name = ''Bob The Builder'',
          v_address = Some ''456 Construction Site'', v_phone = Some ''1234567890'',
          v_admission_date = ''2023-03-01'', v_admission_cancel_date = None,
          v_monthly_fee = 1200, v_paid_till = Some ''2023-07-31'', v_pending_months = 11,
          v_pending_amount = 13200\<rparr>]"
  using get_pending_students_list_pending [of "\<lparr>year = 2024, month = 6, day = 20\<rparr>"
      "\<lparr>students = [student1, student2], payments = dummy_payments\<rparr>"]
  by (simp add: list_pending_def dummy_views del: get_student_views.simps)

end
